theory Spec2Isabelle
  imports Complex_Main
begin

section \<open>Python dictionaries with insertion order\<close>

text \<open>
  A Python \<open>dict\<close> keeps its keys in insertion order, and \<open>d[k] = v\<close> replaces the
  value of a key that is present where it stands and appends a key that is absent.
  Dictionaries are association lists; \<open>dict_set\<close> is the assignment.
\<close>

fun dict_set :: "('k \<times> 'v) list \<Rightarrow> 'k \<Rightarrow> 'v \<Rightarrow> ('k \<times> 'v) list" where
  "dict_set [] k v = [(k, v)]"
| "dict_set ((k', v') # d) k v =
     (if k' = k then (k, v) # d else (k', v') # dict_set d k v)"

text \<open>\<open>d.update(other)\<close>: assign every item of \<open>other\<close>, in its order.\<close>

definition dict_update :: "('k \<times> 'v) list \<Rightarrow> ('k \<times> 'v) list \<Rightarrow> ('k \<times> 'v) list" where
  "dict_update d other = fold (\<lambda>(k, v) acc. dict_set acc k v) other d"

section \<open>The progress ledger: \<open>scripts/progress_tracker.py\<close>\<close>

text \<open>
  One entry of \<open>progress_data['processed_videos']\<close>. The four keys written by
  \<open>mark_video_processed\<close> are fields; whatever \<open>additional_data\<close> adds is kept in
  \<open>extra\<close>. Timestamps are the strings \<open>datetime.now().isoformat()\<close> returns.
\<close>

record ledger_record =
  catalog_index :: int
  processed_at :: string
  batch_file :: string
  status :: string
  extra :: "(string \<times> string) list"

record master_progress =
  total_videos_in_catalog :: int
  total_videos_in_target_range :: int
  videos_processed :: int
  last_updated :: string
  last_processed_index :: int

record progress_data =
  master_progress :: master_progress
  processed_videos :: "(string \<times> ledger_record) list"

text \<open>
  The tracker: the dictionary in memory and the content of \<open>progress_file\<close> on disk
  (\<open>None\<close> while the file does not exist).
\<close>

record tracker =
  progress :: progress_data
  progress_file_content :: "progress_data option"

text \<open>\<open>_load_progress\<close> when the progress file does not exist.\<close>

definition new_progress :: "string \<Rightarrow> progress_data" where
  "new_progress now =
     \<lparr>master_progress =
        \<lparr>total_videos_in_catalog = 0, total_videos_in_target_range = 0,
         videos_processed = 0, last_updated = now, last_processed_index = - 1\<rparr>,
      processed_videos = []\<rparr>"

definition new_tracker :: "string \<Rightarrow> tracker" where
  "new_tracker now = \<lparr>progress = new_progress now, progress_file_content = None\<rparr>"

text \<open>\<open>[v['catalog_index'] for v in self.progress_data['processed_videos'].values()]\<close>\<close>

definition processed_indices :: "tracker \<Rightarrow> int list" where
  "processed_indices t = map (\<lambda>(k, v). catalog_index v) (processed_videos (progress t))"

text \<open>
  \<open>get_next_resume_index\<close>. \<open>range(max_processed + 1)\<close> is the list
  \<open>[0..max_processed]\<close>; the \<open>for\<close> loop returns the first index of it that is not in
  the set, and \<open>max_processed + 1\<close> when it runs to its end. \<open>max\<close> is taken of a list
  that the guard above it has shown to be non-empty.
\<close>

definition get_next_resume_index :: "tracker \<Rightarrow> int" where
  "get_next_resume_index t =
     (let indices = processed_indices t in
      if indices = [] then 0
      else
        let max_processed = Max (set indices);
            all_processed = set indices
        in case find (\<lambda>i. i \<notin> all_processed) [0..max_processed] of
             Some i \<Rightarrow> i
           | None \<Rightarrow> max_processed + 1)"


text \<open>\<open>_save_progress\<close>: the whole dictionary is dumped to the progress file.\<close>

definition save_progress :: "tracker \<Rightarrow> tracker" where
  "save_progress t = t\<lparr>progress_file_content := Some (progress t)\<rparr>"

text \<open>
  \<open>mark_video_processed(video_id, catalog_index, batch_file, additional_data)\<close>.
  \<open>now1\<close> and \<open>now2\<close> are the two readings of the clock the method takes. The record is
  assigned under \<open>video_id\<close> without any test for a record already there; a falsy
  \<open>additional_data\<close> (\<open>None\<close> or an empty dictionary) adds nothing. The method
  returns nothing. \<open>max\<close> is taken after the assignment, so of a non-empty list.
\<close>

definition mark_video_processed ::
  "tracker \<Rightarrow> string \<Rightarrow> int \<Rightarrow> string \<Rightarrow> (string \<times> string) list option \<Rightarrow>
   string \<Rightarrow> string \<Rightarrow> tracker" where
  "mark_video_processed t video_id cat_index batch additional_data now1 now2 =
     (let entry = \<lparr>catalog_index = cat_index, processed_at = now1, batch_file = batch,
                   status = ''success'', extra = []\<rparr>;
          entry' = (case additional_data of
                      None \<Rightarrow> entry
                    | Some d \<Rightarrow> if d = [] then entry
                               else entry\<lparr>extra := dict_update (extra entry) d\<rparr>);
          pv = dict_set (processed_videos (progress t)) video_id entry';
          mp = (master_progress (progress t))
                 \<lparr>videos_processed := int (length pv),
                  last_updated := now2,
                  last_processed_index := Max (set (map (\<lambda>(k, v). catalog_index v) pv))\<rparr>
      in save_progress (t\<lparr>progress := \<lparr>master_progress = mp, processed_videos = pv\<rparr>\<rparr>))"

section \<open>Merging batch files: \<open>scripts/merge_batch_files.py\<close>\<close>

text \<open>
  A video of a batch file is a JSON object. The merge reads and writes one key of it,
  \<open>video_index\<close> (absent until it is assigned); \<open>video_id\<close> is the item's identifier
  and \<open>other_fields\<close> stands for all remaining keys, which the merge carries along.
\<close>

record video =
  video_id :: string
  video_index :: "int option"
  other_fields :: "(string \<times> string) list"

text \<open>The content of a batch file: both keys may be missing.\<close>

record batch_data =
  batch_metadata :: "(string \<times> string) list option"
  videos :: "video list option"

text \<open>
  A file found by the glob: its base name and its parsed content, \<open>None\<close> when opening
  or parsing raises (the \<open>except\<close> branch: the file is skipped).
\<close>

record batch_source =
  file_name :: string
  content :: "batch_data option"

text \<open>\<open>v.get('video_index', d)\<close>\<close>

definition index_or :: "int \<Rightarrow> video \<Rightarrow> int" where
  "index_or d v = (case video_index v of Some i \<Rightarrow> i | None \<Rightarrow> d)"

text \<open>
  The loop \<open>for i, video in enumerate(videos)\<close>: the index is
  \<open>len(all_videos) + i\<close>, read when the video is reached, and the video is appended
  to \<open>all_videos\<close> before the next one is reached.
\<close>

fun collect_videos :: "video list \<Rightarrow> nat \<Rightarrow> video list \<Rightarrow> video list" where
  "collect_videos all_videos i [] = all_videos"
| "collect_videos all_videos i (v # vs) =
     collect_videos
       (all_videos @ [v\<lparr>video_index := Some (int (length all_videos) + int i)\<rparr>]) (Suc i) vs"

text \<open>The loop over the batch files, with the two lists it fills.\<close>

fun read_batches ::
  "batch_source list \<Rightarrow> video list \<Rightarrow> (string \<times> string) list list \<Rightarrow>
   video list \<times> (string \<times> string) list list" where
  "read_batches [] all_videos metas = (all_videos, metas)"
| "read_batches (f # fs) all_videos metas =
     (case content f of
        None \<Rightarrow> read_batches fs all_videos metas
      | Some bd \<Rightarrow>
          let metas' = (case batch_metadata bd of
                          None \<Rightarrow> metas
                        | Some m \<Rightarrow> metas @ [dict_set m ''source_file'' (file_name f)]);
              all_videos' = (case videos bd of
                               None \<Rightarrow> all_videos
                             | Some vs \<Rightarrow> collect_videos all_videos 0 vs)
          in read_batches fs all_videos' metas')"

text \<open>
  The loop that removes duplicates: \<open>seen\<close> is \<open>seen_indices\<close> and \<open>unique\<close> is
  \<open>unique_videos\<close>.
\<close>

fun dedup_by_index :: "video list \<Rightarrow> int set \<Rightarrow> video list \<Rightarrow> video list" where
  "dedup_by_index [] seen unique = unique"
| "dedup_by_index (v # vs) seen unique =
     (let idx = index_or (- 1) v in
      if idx \<notin> seen then dedup_by_index vs (insert idx seen) (unique @ [v])
      else dedup_by_index vs seen unique)"

record merge_metadata =
  merged_at :: string
  source_files :: nat
  total_videos :: nat
  index_min :: int
  index_max :: int
  next_resume_index :: int
  duplicates_removed :: int
  missing_indices :: "int list"

record merged_data =
  merge_metadata :: merge_metadata
  batch_sources :: "(string \<times> string) list list"
  merged_videos :: "video list"

text \<open>
  \<open>merge_batch_files\<close>, from the list of files the glob returned to the dictionary that
  is written to the output file and returned; \<open>None\<close> on the two early returns.
  \<open>list.sort\<close> is stable, as \<open>sort_key\<close> is. \<open>min\<close> and \<open>max\<close> are taken of
  \<open>indices\<close>, which is as long as \<open>all_videos\<close> and so not empty.
\<close>

definition merge_batch_files :: "batch_source list \<Rightarrow> string \<Rightarrow> merged_data option" where
  "merge_batch_files batch_files now =
     (if batch_files = [] then None
      else
        let (collected, metas) = read_batches batch_files [] [] in
        if collected = [] then None
        else
          let all_videos = sort_key (index_or 0) collected;
              indices = map (index_or (- 1)) all_videos;
              unique_indices = set indices;
              duplicates = int (length all_videos) - int (card unique_indices);
              all_videos' = (if duplicates > 0 then dedup_by_index all_videos {} []
                             else all_videos);
              expected_indices = {Min (set indices)..Max (set indices)};
              missing = expected_indices - unique_indices
          in Some
            \<lparr>merge_metadata =
               \<lparr>merged_at = now,
                source_files = length batch_files,
                total_videos = length all_videos',
                index_min = Min (set indices),
                index_max = Max (set indices),
                next_resume_index = Max (set indices) + 1,
                duplicates_removed = duplicates,
                missing_indices = sorted_list_of_set missing\<rparr>,
             batch_sources = metas,
             merged_videos = all_videos'\<rparr>)"

section \<open>Strings\<close>

text \<open>
  \<open>str.lower\<close> on ASCII letters, and \<open>needle in haystack\<close> for strings. The phrases
  the code looks for are ASCII.
\<close>

definition lower_char :: "char \<Rightarrow> char" where
  "lower_char c =
     (case map_of (zip ''ABCDEFGHIJKLMNOPQRSTUVWXYZ'' ''abcdefghijklmnopqrstuvwxyz'') c of
        Some l \<Rightarrow> l
      | None \<Rightarrow> c)"

definition lower :: "string \<Rightarrow> string" where
  "lower s = map lower_char s"

fun contains :: "string \<Rightarrow> string \<Rightarrow> bool" where
  "contains [] needle = (needle = [])"
| "contains (c # cs) needle = (take (length needle) (c # cs) = needle \<or> contains cs needle)"

text \<open>\<open>any(phrase in msg for phrase in phrases)\<close>\<close>

definition any_phrase :: "string list \<Rightarrow> string \<Rightarrow> bool" where
  "any_phrase phrases msg = list_ex (contains msg) phrases"

text \<open>\<open>' '.join(texts)\<close>\<close>

fun join_spaces :: "string list \<Rightarrow> string" where
  "join_spaces [] = []"
| "join_spaces [x] = x"
| "join_spaces (x # y # ys) = x @ '' '' @ join_spaces (y # ys)"

text \<open>The decimal digits of a natural number, as an f-string prints it.\<close>

function str_nat :: "nat \<Rightarrow> string" where
  "str_nat n =
     (if n < 10 then [''0123456789'' ! n]
      else str_nat (n div 10) @ [''0123456789'' ! (n mod 10)])"
  by pat_completeness auto
termination
  by (relation "measure (\<lambda>n. n)") auto

section \<open>The world outside the process\<close>

text \<open>
  What the remote service, the random number generator and the proxies answer is not
  decided by the program. It is given by an environment: \<open>remote n v\<close> is what the
  \<open>n\<close>-th call of the transcript API does for the video \<open>v\<close> (it returns the texts of
  the transcript segments or raises an exception with a message), \<open>rand n\<close> is the
  \<open>n\<close>-th value of \<open>random.random()\<close>, and \<open>proxy_ok n p\<close> tells whether the \<open>n\<close>-th
  test request through the proxy \<open>p\<close> succeeds. \<open>clean_text\<close> stands for the regular
  expression substitutions of \<open>clean_transcript\<close> and \<open>count_words\<close> for
  \<open>len(text.split())\<close>; \<open>isoformat t\<close> is the string
  \<open>datetime.now().isoformat()\<close> gives at the time \<open>t\<close>.
\<close>

datatype fetch_result = Transcript "string list" | Raises string

record env =
  remote :: "nat \<Rightarrow> string \<Rightarrow> fetch_result"
  rand :: "nat \<Rightarrow> real"
  proxy_ok :: "nat \<Rightarrow> string \<Rightarrow> bool"
  clean_text :: "string \<Rightarrow> string"
  count_words :: "string \<Rightarrow> nat"
  isoformat :: "real \<Rightarrow> string"

text \<open>
  The state of the world: the clock \<open>time.time()\<close> reads (it advances by sleeping), how
  many random numbers, remote calls and proxy tests have been consumed, and the trace of
  what the process has done so far, oldest first. Numbers that are floats in Python are
  reals here.
\<close>

datatype event =
    Slept real
  | Fetched string
  | Probed string
  | Attempted string
  | Wrote string

record world =
  clock :: real
  draws :: nat
  fetches :: nat
  probes :: nat
  trace :: "event list"

text \<open>\<open>time.sleep(d)\<close>\<close>

definition sleep :: "real \<Rightarrow> 'a world_scheme \<Rightarrow> 'a world_scheme" where
  "sleep d w = w\<lparr>clock := clock w + d, trace := trace w @ [Slept d]\<rparr>"

text \<open>\<open>random.random()\<close> and \<open>random.uniform(a, b)\<close>, which is \<open>a + (b - a) * random()\<close>.\<close>

definition random_random :: "env \<Rightarrow> 'a world_scheme \<Rightarrow> real \<times> 'a world_scheme" where
  "random_random e w = (rand e (draws w), w\<lparr>draws := Suc (draws w)\<rparr>)"

definition uniform :: "env \<Rightarrow> real \<Rightarrow> real \<Rightarrow> 'a world_scheme \<Rightarrow> real \<times> 'a world_scheme" where
  "uniform e a b w = (let (u, w') = random_random e w in (a + (b - a) * u, w'))"

text \<open>One call of the transcript API for a video.\<close>

definition call_remote :: "env \<Rightarrow> string \<Rightarrow> 'a world_scheme \<Rightarrow> fetch_result \<times> 'a world_scheme" where
  "call_remote e video w =
     (remote e (fetches w) video,
      w\<lparr>fetches := Suc (fetches w), trace := trace w @ [Fetched video]\<rparr>)"

text \<open>
  Two fixtures for concrete runs: an environment whose remote calls answer from a
  script (and time out once the script is used up), whose random numbers are all one
  half and whose proxies never work; and the world at the start of a process.
\<close>

definition scripted_env :: "fetch_result list \<Rightarrow> env" where
  "scripted_env answers =
     \<lparr>remote = (\<lambda>n v. if n < length answers then answers ! n else Raises ''timeout''),
      rand = (\<lambda>n. 1 / 2),
      proxy_ok = (\<lambda>n p. False),
      clean_text = (\<lambda>t. t),
      count_words = (\<lambda>t. length (filter (\<lambda>c. c = CHR '' '') t) + 1),
      isoformat = (\<lambda>t. ''2025-01-01T00:00:00'')\<rparr>"

definition initial_world :: world where
  "initial_world = \<lparr>clock = 0, draws = 0, fetches = 0, probes = 0, trace = []\<rparr>"

section \<open>The rate-limited executor: \<open>scripts/transcript_extractor.py\<close>\<close>

datatype api_method = Fetch | Get_transcript

text \<open>
  The attributes the two extractor classes have in common. \<open>transcript_api\<close> is false
  when \<open>self.transcript_api\<close> is \<open>None\<close> (the library could not be imported);
  \<open>proxy_cycle\<close> is the number of items taken from \<open>cycle(proxy_list)\<close> so far.
\<close>

record extractor_common =
  transcript_api :: bool
  api_method :: "api_method option"
  request_count :: nat
  last_request_time :: real
  max_retries :: nat
  ip_blocked :: bool
  use_proxies :: bool
  proxy_list :: "string list"
  proxy_cycle :: nat
  current_proxy :: "string option"
  failed_proxies :: "string set"

record extractor = extractor_common +
  min_delay :: real
  max_delay :: real
  backoff_factor :: real

text \<open>\<open>TranscriptExtractor.__init__\<close>, with the library imported or not.\<close>

definition new_extractor :: "bool \<Rightarrow> api_method \<Rightarrow> bool \<Rightarrow> string list \<Rightarrow> extractor" where
  "new_extractor loaded method proxies plist =
     \<lparr>transcript_api = loaded,
      api_method = (if loaded then Some method else None),
      request_count = 0,
      last_request_time = 0,
      max_retries = 5,
      ip_blocked = False,
      use_proxies = proxies,
      proxy_list = plist,
      proxy_cycle = 0,
      current_proxy = None,
      failed_proxies = {},
      min_delay = 3,
      max_delay = 15,
      backoff_factor = 5 / 2\<rparr>"

text \<open>
  \<open>_validate_video_id\<close>: \<open>re.match(r'^[a-zA-Z0-9_-]{11}$', video_id)\<close>. In Python
  \<open>$\<close> matches at the end of the string and also just before a newline that ends
  the string.
\<close>

definition id_char :: "char \<Rightarrow> bool" where
  "id_char c \<longleftrightarrow>
     c \<in> set ''abcdefghijklmnopqrstuvwxyzABCDEFGHIJKLMNOPQRSTUVWXYZ0123456789_-''"

definition validate_video_id :: "string \<Rightarrow> bool" where
  "validate_video_id video \<longleftrightarrow>
     (length video = 11 \<and> list_all id_char video) \<or>
     (length video = 12 \<and> list_all id_char (take 11 video) \<and> video ! 11 = CHR 0x0A)"

text \<open>Python's truth value of a string that may be \<open>None\<close>.\<close>

definition truthy :: "string option \<Rightarrow> bool" where
  "truthy p = (case p of None \<Rightarrow> False | Some x \<Rightarrow> x \<noteq> [])"

text \<open>\<open>next(self.proxy_cycle)\<close>, for a proxy list that is not empty.\<close>

definition next_in_cycle ::
  "'a extractor_common_scheme \<Rightarrow> string \<times> 'a extractor_common_scheme" where
  "next_in_cycle s =
     (proxy_list s ! (proxy_cycle s mod length (proxy_list s)),
      s\<lparr>proxy_cycle := Suc (proxy_cycle s)\<rparr>)"

text \<open>
  The \<open>while attempts < len(self.proxy_list)\<close> loop of \<open>_get_next_proxy\<close>; the first
  argument is the number of iterations left, and \<open>None\<close> means that the loop ended
  without returning.
\<close>

fun scan_proxies ::
  "nat \<Rightarrow> 'a extractor_common_scheme \<Rightarrow> string option \<times> 'a extractor_common_scheme" where
  "scan_proxies 0 s = (None, s)"
| "scan_proxies (Suc n) s =
     (let (proxy, s') = next_in_cycle s in
      if proxy \<notin> failed_proxies s' then (Some proxy, s') else scan_proxies n s')"

definition get_next_proxy :: "extractor \<Rightarrow> string option \<times> extractor" where
  "get_next_proxy s =
     (if \<not> use_proxies s \<or> proxy_list s = [] then (None, s)
      else case scan_proxies (length (proxy_list s)) s of
             (Some proxy, s') \<Rightarrow> (Some proxy, s')
           | (None, s') \<Rightarrow>
               (let (proxy, s'') = next_in_cycle (s'\<lparr>failed_proxies := {}\<rparr>)
                in (Some proxy, s'')))"

text \<open>
  \<open>_setup_proxy_session(proxy)\<close>: the result is whether a session was returned. The
  test request is the only remote effect.
\<close>

definition setup_proxy_session ::
  "env \<Rightarrow> string option \<Rightarrow> extractor \<Rightarrow> world \<Rightarrow> bool \<times> extractor \<times> world" where
  "setup_proxy_session e proxy s w =
     (if \<not> truthy proxy \<or> \<not> use_proxies s then (False, s, w)
      else
        let p = the proxy;
            w' = w\<lparr>probes := Suc (probes w), trace := trace w @ [Probed p]\<rparr>
        in if proxy_ok e (probes w) p then (True, s\<lparr>current_proxy := Some p\<rparr>, w')
           else (False, s\<lparr>failed_proxies := insert p (failed_proxies s)\<rparr>, w'))"

text \<open>
  The base delay \<open>_wait_for_rate_limit\<close> computes, for the state \<open>s\<close> at the time
  \<open>current_time\<close>.
\<close>

definition pacing_base_delay :: "extractor \<Rightarrow> real \<Rightarrow> real" where
  "pacing_base_delay s current_time =
     (if ip_blocked s then max_delay s * 2
      else if request_count s > 0 then
        let time_window = max ((current_time - last_request_time s) / 60) 1;
            requests_per_minute = real (request_count s) / time_window
        in if requests_per_minute > 10 then max_delay s
           else if requests_per_minute > 5 then min_delay s * 3
           else if requests_per_minute > 3 then min_delay s * 2
           else min_delay s
      else min_delay s)"

definition wait_for_rate_limit :: "env \<Rightarrow> extractor \<Rightarrow> world \<Rightarrow> world" where
  "wait_for_rate_limit e s w =
     (let current_time = clock w;
          time_since_last = current_time - last_request_time s;
          base_delay = pacing_base_delay s current_time;
          (jitter, w') = uniform e (2 / 10) (5 / 10) w;
          total_delay = base_delay + jitter
      in if time_since_last < total_delay then sleep (total_delay - time_since_last) w'
         else w')"

text \<open>\<open>_calculate_backoff_delay(attempt)\<close>\<close>

definition calculate_backoff_delay :: "env \<Rightarrow> extractor \<Rightarrow> nat \<Rightarrow> world \<Rightarrow> real \<times> world" where
  "calculate_backoff_delay e s attempt w =
     (let base_delay = min_delay s * backoff_factor s ^ attempt;
          max_delay' = min base_delay 30;
          (jitter, w') = uniform e (8 / 10) (12 / 10) w
      in (max_delay' * jitter, w'))"

text \<open>\<open>_fetch_transcript_adaptive(video_id)\<close>\<close>

definition fetch_transcript_adaptive ::
  "env \<Rightarrow> extractor \<Rightarrow> string \<Rightarrow> world \<Rightarrow> fetch_result \<times> world" where
  "fetch_transcript_adaptive e s video w =
     (case api_method s of
        Some m \<Rightarrow> call_remote e video w
      | None \<Rightarrow> (Raises ''Unknown API method: None'', w))"

text \<open>
  The proxy rotation at the head of an attempt of \<open>_rate_limited_request\<close>: with
  proxies in use, on every retry and whenever no proxy is current, the next proxy is
  taken and a session is set up through it.
\<close>

definition rotate_for_attempt :: "env \<Rightarrow> nat \<Rightarrow> extractor \<Rightarrow> world \<Rightarrow> extractor \<times> world" where
  "rotate_for_attempt e attempt s w =
     (if use_proxies s \<and> (attempt > 0 \<or> \<not> truthy (current_proxy s)) then
        (let (proxy, s') = get_next_proxy s in
         if truthy proxy
         then (let (session, s'', w') = setup_proxy_session e proxy s' w in (s'', w'))
         else (s', w))
      else (s, w))"

text \<open>
  \<open>_rate_limited_request(self._fetch_transcript_adaptive, video_id)\<close>: the loop
  \<open>for attempt in range(self.max_retries)\<close> over the attempts that are left. The
  result is \<open>Inr\<close> of the value returned or \<open>Inl\<close> of the message of the exception
  that leaves the method.
\<close>

fun attempt_loop ::
  "env \<Rightarrow> string \<Rightarrow> nat list \<Rightarrow> extractor \<Rightarrow> world \<Rightarrow> (string + string list) \<times> extractor \<times> world" where
  "attempt_loop e video [] s w =
     (Inl (''Failed after '' @ str_nat (max_retries s) @ '' attempts''), s, w)"
| "attempt_loop e video (attempt # rest) s w =
     (let (s1, w1) = rotate_for_attempt e attempt s w;
          w2 = wait_for_rate_limit e s1 w1;
          (result, w3) = fetch_transcript_adaptive e s1 video w2
      in case result of
           Transcript segments \<Rightarrow>
             (Inr segments,
              s1\<lparr>request_count := request_count s1 + 1, last_request_time := clock w3\<rparr>, w3)
         | Raises msg \<Rightarrow>
             (let error_msg = lower msg in
              if any_phrase [''ipblocked'', ''ip blocked'', ''blocking requests from your ip'',
                             ''requestblocked'', ''request blocked''] error_msg
              then
                (let s2 = s1\<lparr>ip_blocked := True\<rparr>;
                     delay = 300 + real attempt * 180
                 in attempt_loop e video rest s2 (sleep delay w3))
              else if any_phrase [''rate limit'', ''too many requests'', ''429'',
                                  ''quota exceeded''] error_msg
              then
                (let (delay, w4) = calculate_backoff_delay e s1 attempt w3
                 in attempt_loop e video rest s1 (sleep delay w4))
              else if any_phrase [''timeout'', ''connection'', ''temporary'', ''503'', ''502'',
                                  ''proxy''] error_msg
              then
                (let s2 = (if use_proxies s1 \<and> truthy (current_proxy s1)
                           then s1\<lparr>failed_proxies :=
                                      insert (the (current_proxy s1)) (failed_proxies s1),
                                    current_proxy := None\<rparr>
                           else s1);
                     (delay, w4) = calculate_backoff_delay e s2 attempt w3
                 in attempt_loop e video rest s2 (sleep delay w4))
              else (Inl msg, s1, w3)))"

definition rate_limited_request ::
  "env \<Rightarrow> string \<Rightarrow> extractor \<Rightarrow> world \<Rightarrow> (string + string list) \<times> extractor \<times> world" where
  "rate_limited_request e video s w = attempt_loop e video [0..<max_retries s] s w"

text \<open>
  The dictionary \<open>get_transcript\<close> returns. A key that a branch does not set is
  \<open>None\<close> here.
\<close>

record transcript_result =
  result_video_id :: string
  transcript_available :: bool
  full_text :: string
  word_count :: nat
  transcript_segments :: nat
  error :: "string option"
  error_type :: "string option"
  api_method_used :: "api_method option"
  proxy_used :: "string option"
  attempt_number :: "nat option"

text \<open>The error type \<open>get_transcript\<close> derives from the message of the exception.\<close>

definition categorize_error :: "string \<Rightarrow> string" where
  "categorize_error error_msg =
     (if contains (lower error_msg) ''not available'' \<or> contains (lower error_msg) ''disabled''
      then ''transcript_disabled''
      else if contains (lower error_msg) ''not found'' \<or> contains error_msg ''404''
      then ''video_not_found''
      else if contains (lower error_msg) ''rate limit'' \<or> contains error_msg ''429''
      then ''rate_limited''
      else if contains (lower error_msg) ''invalid'' then ''invalid_format''
      else ''unknown'')"

text \<open>
  \<open>get_transcript(video_id)\<close>: the result (\<open>None\<close> when the library is missing), the
  extractor and the world after the call.
\<close>

definition get_transcript ::
  "env \<Rightarrow> extractor \<Rightarrow> world \<Rightarrow> string \<Rightarrow> transcript_result option \<times> extractor \<times> world" where
  "get_transcript e s w video =
     (if \<not> transcript_api s then (None, s, w)
      else if \<not> validate_video_id video then
        (Some \<lparr>result_video_id = video, transcript_available = False, full_text = [],
               word_count = 0, transcript_segments = 0,
               error = Some ''Invalid video ID format'', error_type = None,
               api_method_used = None, proxy_used = None,
               attempt_number = None\<rparr>, s, w)
      else
        case rate_limited_request e video s w of
          (Inr transcript_list, s', w') \<Rightarrow>
            (let text = clean_text e (join_spaces transcript_list) in
             (Some \<lparr>result_video_id = video, transcript_available = True, full_text = text,
                    word_count = count_words e text,
                    transcript_segments = length transcript_list,
                    error = None, error_type = None,
                    api_method_used = api_method s',
                    proxy_used = (if use_proxies s' then current_proxy s' else None),
                    attempt_number = None\<rparr>,
              s', w'))
        | (Inl error_msg, s', w') \<Rightarrow>
            (Some \<lparr>result_video_id = video, transcript_available = False, full_text = [],
                   word_count = 0, transcript_segments = 0,
                   error = Some error_msg, error_type = Some (categorize_error error_msg),
                   api_method_used = None, proxy_used = None,
               attempt_number = None\<rparr>, s', w'))"

section \<open>The batch extractor: \<open>scripts/transcript_extractor_human_batch.py\<close>\<close>












text \<open>
  A video of the catalog, as \<open>process_batch\<close> reads it: the keys \<open>video_id\<close> and
  \<open>title\<close>, and all other keys. The video of the result carries the catalog video
  (\<open>**video\<close>) and four more keys.
\<close>

record catalog_video =
  catalog_video_id :: string
  title :: string
  attributes :: "(string \<times> string) list"

record enhanced_video =
  source_video :: catalog_video
  transcript_attempted :: bool
  transcript_result :: "transcript_result option"
  batch_number :: nat
  processed_at :: string

record batch_file_metadata =
  meta_batch_number :: nat
  video_count :: nat
  success_count :: nat
  success_rate :: real
  meta_proxy_rotations :: nat
  completed_at :: string

record batch_file =
  file_metadata :: batch_file_metadata
  file_videos :: "enhanced_video list"



datatype py_error = ZeroDivisionError







section \<open>The orchestrator: \<open>scripts/vpn_batch_orchestrator.py\<close>\<close>

text \<open>
  The orchestrator's attributes; \<open>launched\<close> notes the start index and the size of
  every batch command it has run.
\<close>

record orchestrator =
  orch_processed_videos :: int
  current_location :: "string option"
  locations_used :: "string list"
  launched :: "(int \<times> int) list"

text \<open>
  What the orchestrator sees of one run of the batch script: the start of the
  subprocess raised, or it ended with a return code and the lines read from its output.
\<close>

datatype batch_run = Launch_failed | Finished int "string list"

text \<open>\<open>run_batch_script\<close>: \<open>return_code == 0 and success_count > 0\<close>.\<close>

definition run_batch_script :: "batch_run \<Rightarrow> bool" where
  "run_batch_script run =
     (case run of
        Launch_failed \<Rightarrow> False
      | Finished return_code output \<Rightarrow>
          return_code = 0 \<and>
          length (filter (\<lambda>line. contains line ''Successfully processed video'') output) > 0)"

text \<open>
  \<open>switch_vpn_location()\<close>: the rotation is done outside the program; it reports the
  location switched to, or \<open>None\<close> when every method failed and the operator quit.
\<close>

definition switch_vpn_location :: "string option \<Rightarrow> orchestrator \<Rightarrow> bool \<times> orchestrator" where
  "switch_vpn_location outcome s =
     (case outcome of
        Some location \<Rightarrow>
          (True, s\<lparr>current_location := Some location,
                   locations_used := locations_used s @ [location]\<rparr>)
      | None \<Rightarrow> (False, s))"

datatype run_result = Returned bool | Raised py_error | Script_exhausted

text \<open>
  The loop of \<open>run_automated_batches\<close>. Each iteration takes from the script what the
  batch run and the rotation (if one is asked for) do; \<open>Script_exhausted\<close> means that
  the loop is still running when the script ends. The batch number that is logged
  divides by \<open>videos_per_batch\<close>.
\<close>

fun batch_loop ::
  "(batch_run \<times> string option) list \<Rightarrow> int \<Rightarrow> int \<Rightarrow> orchestrator \<Rightarrow> run_result \<times> orchestrator" where
  "batch_loop [] videos_per_batch target_end_index s =
     (if orch_processed_videos s < target_end_index then (Script_exhausted, s)
      else (Returned True, s))"
| "batch_loop ((run, rotation) # script) videos_per_batch target_end_index s =
     (if orch_processed_videos s < target_end_index then
        (let batch_start_index = orch_processed_videos s;
             batch_size = min videos_per_batch (target_end_index - orch_processed_videos s)
         in if videos_per_batch = 0 then (Raised ZeroDivisionError, s)
            else
              let s0 = s\<lparr>launched := launched s @ [(batch_start_index, batch_size)]\<rparr>;
                  success = run_batch_script run
              in if success then
                   (let s1 = s0\<lparr>orch_processed_videos := orch_processed_videos s0 + batch_size\<rparr>
                    in if orch_processed_videos s1 < target_end_index then
                         (case switch_vpn_location rotation s1 of
                            (False, s2) \<Rightarrow> (Returned False, s2)
                          | (True, s2) \<Rightarrow> batch_loop script videos_per_batch target_end_index s2)
                       else batch_loop script videos_per_batch target_end_index s1)
                 else
                   (case switch_vpn_location rotation s0 of
                      (False, s2) \<Rightarrow> (Returned False, s2)
                    | (True, s2) \<Rightarrow> batch_loop script videos_per_batch target_end_index s2))
      else (Returned True, s))"

text \<open>\<open>run_automated_batches(total_videos, videos_per_batch, start_index)\<close>\<close>

definition run_automated_batches ::
  "(batch_run \<times> string option) list \<Rightarrow> orchestrator \<Rightarrow> int \<Rightarrow> int \<Rightarrow> int \<Rightarrow>
   run_result \<times> orchestrator" where
  "run_automated_batches script s total_count videos_per_batch start_index =
     batch_loop script videos_per_batch (start_index + total_count)
       (s\<lparr>orch_processed_videos := start_index\<rparr>)"

section \<open>Facts about dictionaries\<close>





lemma dict_set_not_Nil: "dict_set d k v \<noteq> []"
  by (cases d) (auto split: if_splits)

section \<open>Resume index\<close>

lemma find_upto_None:
  "find P [a..b] = None \<longleftrightarrow> (\<forall>i. a \<le> i \<and> i \<le> b \<longrightarrow> \<not> P i)"
  by (auto simp: find_None_iff)

lemma find_upto_Some:
  "find P [a..b] = Some r \<Longrightarrow> a \<le> r \<and> r \<le> b \<and> P r \<and> (\<forall>i. a \<le> i \<and> i < r \<longrightarrow> \<not> P i)"
proof -
  assume "find P [a..b] = Some r"
  then obtain n where n: "n < length [a..b]" "P ([a..b] ! n)" "r = [a..b] ! n"
    "\<forall>j<n. \<not> P ([a..b] ! j)"
    by (auto simp: find_Some_iff)
  have r: "r = a + int n" using n(1,3) by simp
  have "\<not> P i" if "a \<le> i" "i < r" for i
  proof -
    have "nat (i - a) < n" using that r by linarith
    moreover have "[a..b] ! nat (i - a) = i" using that r n(1) by simp
    ultimately show ?thesis using n(4) by metis
  qed
  then show ?thesis using n r by auto
qed

lemma resume_index_characterisation:
  fixes t :: tracker
  defines "P \<equiv> set (processed_indices t)"
  shows "(P = {} \<longrightarrow> get_next_resume_index t = 0) \<and>
         (P \<noteq> {} \<longrightarrow>
            (if \<exists>i. 0 \<le> i \<and> i \<le> Max P \<and> i \<notin> P
             then 0 \<le> get_next_resume_index t \<and> get_next_resume_index t \<le> Max P \<and>
                  get_next_resume_index t \<notin> P \<and>
                  (\<forall>i. 0 \<le> i \<and> i < get_next_resume_index t \<longrightarrow> i \<in> P)
             else get_next_resume_index t = Max P + 1))"
proof (cases "processed_indices t = []")
  case True
  then show ?thesis by (simp add: P_def get_next_resume_index_def)
next
  case False
  let ?m = "Max (set (processed_indices t))"
  let ?f = "find (\<lambda>i. i \<notin> set (processed_indices t)) [0..?m]"
  have ne: "P \<noteq> {}" using False by (simp add: P_def)
  show ?thesis
  proof (cases ?f)
    case None
    then have "\<not> (\<exists>i. 0 \<le> i \<and> i \<le> Max P \<and> i \<notin> P)"
      by (simp add: find_upto_None P_def)
    moreover have "get_next_resume_index t = Max P + 1"
      using False None by (simp add: get_next_resume_index_def P_def Let_def)
    ultimately show ?thesis using ne by simp
  next
    case (Some r)
    have res: "get_next_resume_index t = r"
      using False Some by (simp add: get_next_resume_index_def Let_def)
    from find_upto_Some [OF Some]
    have "0 \<le> r" "r \<le> Max P" "r \<notin> P" "\<forall>i. 0 \<le> i \<and> i < r \<longrightarrow> i \<in> P"
      by (auto simp: P_def)
    then show ?thesis using ne res by auto
  qed
qed


text \<open>
  C1. \<open>get_next_resume_index\<close> returns 0 for a ledger without records. Otherwise, with
  \<open>P\<close> the set of recorded positions: when some position of \<open>0..max P\<close> has no record,
  the result is the smallest such position (it lies in \<open>0..max P\<close>, has no record, and
  every position from 0 below it has one); when there is none, the result is \<open>max P + 1\<close>.
  In particular the positions \<open>{0,1,2,4,5}\<close> give 3 and \<open>{0,1,2,3}\<close> give 4.
\<close>

theorem get_next_resume_index_first_gap:
  fixes t :: tracker
  defines "P \<equiv> set (processed_indices t)"
  defines "r \<equiv> get_next_resume_index t"
  shows "(P = {} \<longrightarrow> r = 0) \<and>
         (P \<noteq> {} \<longrightarrow>
            (if \<exists>i. 0 \<le> i \<and> i \<le> Max P \<and> i \<notin> P
             then 0 \<le> r \<and> r \<le> Max P \<and> r \<notin> P \<and> (\<forall>i. 0 \<le> i \<and> i < r \<longrightarrow> i \<in> P)
             else r = Max P + 1)) \<and>
         (P = {0, 1, 2, 4, 5} \<longrightarrow> r = 3) \<and>
         (P = {0, 1, 2, 3} \<longrightarrow> r = 4)"
proof -
  note gen = resume_index_characterisation [of t, folded P_def r_def]
  have a: "r = 3" if h: "P = {0, 1, 2, 4, 5}"
  proof -
    have m: "Max P = 5" using h by simp
    have "\<exists>i. 0 \<le> i \<and> i \<le> Max P \<and> i \<notin> P"
      unfolding m h by (rule exI [of _ 3]) simp
    with gen h have "0 \<le> r" "r \<le> Max P" "r \<notin> P" by auto
    then show ?thesis unfolding m h by auto
  qed
  have b: "r = 4" if h: "P = {0, 1, 2, 3}"
  proof -
    have m: "Max P = 3" using h by simp
    have "\<not> (\<exists>i. 0 \<le> i \<and> i \<le> Max P \<and> i \<notin> P)"
      unfolding m h by auto
    with gen h have "r = Max P + 1" by auto
    then show ?thesis using m by simp
  qed
  from gen a b show ?thesis by blast
qed

text \<open>
  A ledger built by five calls of \<open>mark_video_processed\<close>, at the positions 0, 1, 2, 4
  and 5: the resume index is the gap, 3.
\<close>

theorem get_next_resume_index_first_gap_witness:
  "set (processed_indices
     (fold (\<lambda>(vid, i) t. mark_video_processed t vid i ''batch_1.json'' None ''n'' ''n'')
        [(''a'', 0), (''b'', 1), (''c'', 2), (''d'', 4), (''e'', 5)] (new_tracker ''n'')))
     = {0, 1, 2, 4, 5} \<and>
   get_next_resume_index
     (fold (\<lambda>(vid, i) t. mark_video_processed t vid i ''batch_1.json'' None ''n'' ''n'')
        [(''a'', 0), (''b'', 1), (''c'', 2), (''d'', 4), (''e'', 5)] (new_tracker ''n'')) = 3"
proof -
  let ?t = "fold (\<lambda>(vid, i) t. mark_video_processed t vid i ''batch_1.json'' None ''n'' ''n'')
        [(''a'', 0), (''b'', 1), (''c'', 2), (''d'', 4), (''e'', 5)] (new_tracker ''n'')"
  have h: "set (processed_indices ?t) = {0, 1, 2, 4, 5}"
    by (simp add: processed_indices_def mark_video_processed_def Let_def save_progress_def
        new_tracker_def new_progress_def)
  from get_next_resume_index_first_gap [of ?t] h show ?thesis by blast
qed

section \<open>Recording an item twice\<close>





section \<open>The merge: indices, duplicates and gaps\<close>

lemma collect_videos_append:
  "collect_videos acc i vs =
     acc @ map (\<lambda>(k, v). v\<lparr>video_index := Some (int (length acc) + int i + 2 * int k)\<rparr>)
             (enumerate 0 vs)"
proof (induction vs arbitrary: acc i)
  case Nil
  then show ?case by simp
next
  case (Cons v vs)
  have "map (\<lambda>(k, w). w\<lparr>video_index := Some (int (Suc (length acc)) + int (Suc i) + 2 * int k)\<rparr>)
          (enumerate 0 vs) =
        map (\<lambda>(k, w). w\<lparr>video_index := Some (int (length acc) + int i + 2 * int k)\<rparr>)
          (enumerate (Suc 0) vs)"
    by (simp add: enumerate_eq_zip map_Suc_upt [symmetric] zip_map1 del: upt_Suc)
      (simp add: case_prod_unfold algebra_simps)
  with Cons.IH [of "acc @ [v\<lparr>video_index := Some (int (length acc) + int i)\<rparr>]" "Suc i"]
  show ?case by simp
qed

lemma collect_videos_ids:
  "map video_id (collect_videos acc i vs) = map video_id acc @ map video_id vs"
  by (induction vs arbitrary: acc i) auto

lemma collect_videos_indexed:
  "\<forall>v \<in> set acc. video_index v \<noteq> None \<Longrightarrow>
   \<forall>v \<in> set (collect_videos acc i vs). video_index v \<noteq> None"
  by (auto simp: collect_videos_append)

lemma dedup_by_index_acc:
  "dedup_by_index xs seen acc = acc @ dedup_by_index xs seen []"
proof (induction xs arbitrary: seen acc)
  case Nil
  then show ?case by simp
next
  case (Cons x xs)
  show ?case
    using Cons.IH [of "insert (index_or (- 1) x) seen" "acc @ [x]"]
      Cons.IH [of "insert (index_or (- 1) x) seen" "[x]"] Cons.IH [of seen acc]
    by (simp add: Let_def)
qed

lemma dedup_by_index_Cons:
  "dedup_by_index (x # xs) seen [] =
     (if index_or (- 1) x \<notin> seen
      then x # dedup_by_index xs (insert (index_or (- 1) x) seen) []
      else dedup_by_index xs seen [])"
  using dedup_by_index_acc [of xs "insert (index_or (- 1) x) seen" "[x]"]
  by (simp add: Let_def)

declare dedup_by_index.simps(2) [simp del]

lemma dedup_by_index_set:
  "index_or (- 1) ` set (dedup_by_index xs seen []) = index_or (- 1) ` set xs - seen"
  by (induction xs arbitrary: seen) (auto simp: dedup_by_index_Cons)

lemma dedup_by_index_subset:
  "set (dedup_by_index xs seen []) \<subseteq> set xs"
  by (induction xs arbitrary: seen) (auto simp: dedup_by_index_Cons)

lemma dedup_by_index_distinct:
  "distinct (map (index_or (- 1)) (dedup_by_index xs seen []))"
proof (induction xs arbitrary: seen)
  case Nil
  then show ?case by simp
next
  case (Cons x xs)
  have "index_or (- 1) x \<notin> index_or (- 1) ` set (dedup_by_index xs (insert (index_or (- 1) x) seen) [])"
    by (simp add: dedup_by_index_set)
  with Cons.IH show ?case by (simp add: dedup_by_index_Cons)
qed

lemma dedup_by_index_first:
  "v \<in> set (dedup_by_index xs seen []) \<Longrightarrow>
   find (\<lambda>w. index_or (- 1) w = index_or (- 1) v) xs = Some v"
proof (induction xs arbitrary: seen)
  case Nil
  then show ?case by simp
next
  case (Cons x xs)
  show ?case
  proof (cases "v = x")
    case True
    then show ?thesis by simp
  next
    case False
    show ?thesis
    proof (cases "index_or (- 1) x \<in> seen")
      case True
      with Cons.prems have v: "v \<in> set (dedup_by_index xs seen [])"
        by (simp add: dedup_by_index_Cons)
      then have "index_or (- 1) v \<in> index_or (- 1) ` set xs - seen"
        using dedup_by_index_set [of xs seen] by blast
      with True have "index_or (- 1) x \<noteq> index_or (- 1) v" by auto
      with Cons.IH [OF v] show ?thesis by simp
    next
      case F: False
      with Cons.prems False
      have v: "v \<in> set (dedup_by_index xs (insert (index_or (- 1) x) seen) [])"
        by (simp add: dedup_by_index_Cons)
      then have "index_or (- 1) v \<in> index_or (- 1) ` set xs - insert (index_or (- 1) x) seen"
        using dedup_by_index_set [of xs "insert (index_or (- 1) x) seen"] by blast
      then have "index_or (- 1) x \<noteq> index_or (- 1) v" by auto
      with Cons.IH [OF v] show ?thesis by simp
    qed
  qed
qed

lemma distinct_first:
  "distinct (map f xs) \<Longrightarrow> v \<in> set xs \<Longrightarrow> find (\<lambda>w. f w = f v) xs = Some v"
  by (induction xs) (auto simp: image_iff)

lemma missing_as_filter:
  "sorted_list_of_set ({a..b} - S) = filter (\<lambda>i. i \<notin> S) [a..b::int]"
proof -
  have "sorted (filter (\<lambda>i. i \<notin> S) [a..b])" by (simp add: sorted_wrt_filter)
  moreover have "distinct (filter (\<lambda>i. i \<notin> S) [a..b])" by simp
  moreover have "set (filter (\<lambda>i. i \<notin> S) [a..b]) = {a..b} - S" by auto
  ultimately show ?thesis
    by (metis sorted_list_of_set.idem_if_sorted_distinct)
qed

lemma card_set_remdups: "card (set xs) = length (remdups xs)"
  by (simp add: length_remdups_card_conv)

lemma merge_batch_files_Some:
  assumes "merge_batch_files batch_files now = Some m"
  defines "all_videos \<equiv> sort_key (index_or 0) (fst (read_batches batch_files [] []))"
  defines "indices \<equiv> map (index_or (- 1)) all_videos"
  shows "all_videos \<noteq> []"
    and "merged_videos m =
           (if int (length all_videos) - int (card (set indices)) > 0
            then dedup_by_index all_videos {} [] else all_videos)"
    and "duplicates_removed (merge_metadata m) =
           int (length all_videos) - int (card (set indices))"
    and "missing_indices (merge_metadata m) =
           sorted_list_of_set ({Min (set indices)..Max (set indices)} - set indices)"
    and "index_min (merge_metadata m) = Min (set indices)"
    and "index_max (merge_metadata m) = Max (set indices)"
    and "next_resume_index (merge_metadata m) = Max (set indices) + 1"
    and "total_videos (merge_metadata m) = length (merged_videos m)"
proof -
  obtain collected metas where rb: "read_batches batch_files [] [] = (collected, metas)"
    by (cases "read_batches batch_files [] []")
  from assms(1) rb have ne: "collected \<noteq> []"
    by (auto simp: merge_batch_files_def split: if_splits)
  then have "sort_key (index_or 0) collected \<noteq> []"
    by (metis length_sort length_0_conv)
  then show "all_videos \<noteq> []" by (simp add: all_videos_def rb)
  from assms(1) rb ne have m: "m =
     (let av = sort_key (index_or 0) collected;
          ix = map (index_or (- 1)) av;
          dup = int (length av) - int (card (set ix));
          av' = (if dup > 0 then dedup_by_index av {} [] else av)
      in \<lparr>merge_metadata =
               \<lparr>merged_at = now,
                source_files = length batch_files,
                total_videos = length av',
                index_min = Min (set ix),
                index_max = Max (set ix),
                next_resume_index = Max (set ix) + 1,
                duplicates_removed = dup,
                missing_indices = sorted_list_of_set ({Min (set ix)..Max (set ix)} - set ix)\<rparr>,
             batch_sources = metas,
             merged_videos = av'\<rparr>)"
    by (auto simp: merge_batch_files_def Let_def split: if_splits)
  show "merged_videos m =
           (if int (length all_videos) - int (card (set indices)) > 0
            then dedup_by_index all_videos {} [] else all_videos)"
    unfolding m all_videos_def indices_def rb by (simp add: Let_def)
  show "duplicates_removed (merge_metadata m) =
           int (length all_videos) - int (card (set indices))"
    unfolding m all_videos_def indices_def rb by (simp add: Let_def)
  show "missing_indices (merge_metadata m) =
           sorted_list_of_set ({Min (set indices)..Max (set indices)} - set indices)"
    unfolding m all_videos_def indices_def rb by (simp add: Let_def)
  show "index_min (merge_metadata m) = Min (set indices)"
    unfolding m all_videos_def indices_def rb by (simp add: Let_def)
  show "index_max (merge_metadata m) = Max (set indices)"
    unfolding m all_videos_def indices_def rb by (simp add: Let_def)
  show "next_resume_index (merge_metadata m) = Max (set indices) + 1"
    unfolding m all_videos_def indices_def rb by (simp add: Let_def)
  show "total_videos (merge_metadata m) = length (merged_videos m)"
    unfolding m by (simp add: Let_def)
qed

lemma merged_videos_properties:
  assumes "merge_batch_files batch_files now = Some m"
  defines "all_videos \<equiv> sort_key (index_or 0) (fst (read_batches batch_files [] []))"
  shows "distinct (map (index_or (- 1)) (merged_videos m))"
    and "index_or (- 1) ` set (merged_videos m) = index_or (- 1) ` set all_videos"
    and "\<forall>v \<in> set (merged_videos m).
           find (\<lambda>w. index_or (- 1) w = index_or (- 1) v) all_videos = Some v"
    and "int (length (merged_videos m)) = int (card (index_or (- 1) ` set all_videos))"
proof -
  let ?g = "index_or (- 1)"
  let ?dup = "int (length all_videos) - int (card (set (map ?g all_videos)))"
  note mv = merge_batch_files_Some(2) [OF assms(1), folded all_videos_def]
  have all: "distinct (map ?g (merged_videos m)) \<and>
        ?g ` set (merged_videos m) = ?g ` set all_videos \<and>
        (\<forall>v \<in> set (merged_videos m). find (\<lambda>w. ?g w = ?g v) all_videos = Some v)"
  proof (cases "?dup > 0")
    case True
    then have mv': "merged_videos m = dedup_by_index all_videos {} []" using mv by simp
    show ?thesis
      unfolding mv'
      using dedup_by_index_distinct [of all_videos "{}"] dedup_by_index_set [of all_videos "{}"]
        dedup_by_index_first [of _ all_videos "{}"]
      by simp
  next
    case False
    then have mv': "merged_videos m = all_videos" using mv by simp
    have "card (set (map ?g all_videos)) \<le> length (map ?g all_videos)"
      by (rule card_length)
    with False have "card (set (map ?g all_videos)) = length (map ?g all_videos)" by simp
    then have "distinct (map ?g all_videos)" by (rule card_distinct)
    then show ?thesis unfolding mv' using distinct_first [of ?g all_videos] by simp
  qed
  then show "distinct (map ?g (merged_videos m))"
    and "?g ` set (merged_videos m) = ?g ` set all_videos"
    and "\<forall>v \<in> set (merged_videos m). find (\<lambda>w. ?g w = ?g v) all_videos = Some v"
    by blast+
  from all have "card (set (map ?g (merged_videos m))) = length (map ?g (merged_videos m))"
    using distinct_card by blast
  with all show "int (length (merged_videos m)) = int (card (?g ` set all_videos))"
    by simp
qed






text \<open>
  C4, as the claim states it, fails: one batch file with two items gives the merged
  positions \<open>{0, 2}\<close>, the reported gaps are \<open>[1]\<close>, and the reported
  \<open>next_resume_index\<close> is 3, not the gap 1.
\<close>

theorem merge_batch_files_resume_counterexample:
  "map_option
     (\<lambda>m. (map (index_or (- 1)) (merged_videos m), missing_indices (merge_metadata m),
           next_resume_index (merge_metadata m)))
     (merge_batch_files
        [\<lparr>file_name = ''berg_human_batch_1.json'',
           content = Some \<lparr>batch_metadata = None,
             videos = Some [\<lparr>video_id = ''A'', video_index = None, other_fields = []\<rparr>,
                            \<lparr>video_id = ''B'', video_index = None, other_fields = []\<rparr>]\<rparr>\<rparr>]
        ''now'')
   = Some ([0, 2], [1], 3)"
  by (simp add: merge_batch_files_def Let_def index_or_def card_set_remdups
      missing_as_filter dedup_by_index_Cons upto_rec1)

text \<open>
  C4, amended. The metadata of the merge reports, in increasing order, the gap set
  \<open>{min..max}\<close> minus the covered positions, and \<open>next_resume_index = max + 1\<close> whether
  or not there is a gap.
\<close>

theorem merge_batch_files_gaps_and_resume:
  assumes "merge_batch_files batch_files now = Some m"
  defines "covered \<equiv> index_or (- 1) ` set (merged_videos m)"
  shows "set (missing_indices (merge_metadata m)) = {Min covered..Max covered} - covered \<and>
         sorted (missing_indices (merge_metadata m)) \<and>
         distinct (missing_indices (merge_metadata m)) \<and>
         index_min (merge_metadata m) = Min covered \<and>
         index_max (merge_metadata m) = Max covered \<and>
         next_resume_index (merge_metadata m) = Max covered + 1"
proof -
  have c: "set (map (index_or (- 1)) (sort_key (index_or 0) (fst (read_batches batch_files [] []))))
           = covered"
    using merged_videos_properties(2) [OF assms(1)] by (simp add: covered_def)
  show ?thesis
    using merge_batch_files_Some(4,5,6,7) [OF assms(1)] unfolding c by simp
qed


text \<open>The same two files: a result is returned, and its resume index is \<open>max + 1 = 3\<close>.\<close>

theorem merge_batch_files_gaps_and_resume_witness:
  "merge_batch_files
        [\<lparr>file_name = ''berg_human_batch_1.json'',
           content = Some \<lparr>batch_metadata = None,
             videos = Some [\<lparr>video_id = ''A'', video_index = None, other_fields = []\<rparr>,
                            \<lparr>video_id = ''B'', video_index = None, other_fields = []\<rparr>]\<rparr>\<rparr>,
         \<lparr>file_name = ''berg_human_batch_2.json'',
           content = Some \<lparr>batch_metadata = None,
             videos = Some [\<lparr>video_id = ''C'', video_index = None, other_fields = []\<rparr>]\<rparr>\<rparr>]
        ''now'' \<noteq> None \<and>
   next_resume_index (merge_metadata (the (merge_batch_files
        [\<lparr>file_name = ''berg_human_batch_1.json'',
           content = Some \<lparr>batch_metadata = None,
             videos = Some [\<lparr>video_id = ''A'', video_index = None, other_fields = []\<rparr>,
                            \<lparr>video_id = ''B'', video_index = None, other_fields = []\<rparr>]\<rparr>\<rparr>,
         \<lparr>file_name = ''berg_human_batch_2.json'',
           content = Some \<lparr>batch_metadata = None,
             videos = Some [\<lparr>video_id = ''C'', video_index = None, other_fields = []\<rparr>]\<rparr>\<rparr>]
        ''now''))) =
   Max (index_or (- 1) ` set (merged_videos (the (merge_batch_files
        [\<lparr>file_name = ''berg_human_batch_1.json'',
           content = Some \<lparr>batch_metadata = None,
             videos = Some [\<lparr>video_id = ''A'', video_index = None, other_fields = []\<rparr>,
                            \<lparr>video_id = ''B'', video_index = None, other_fields = []\<rparr>]\<rparr>\<rparr>,
         \<lparr>file_name = ''berg_human_batch_2.json'',
           content = Some \<lparr>batch_metadata = None,
             videos = Some [\<lparr>video_id = ''C'', video_index = None, other_fields = []\<rparr>]\<rparr>\<rparr>]
        ''now'')))) + 1"
proof -
  let ?F = "[\<lparr>file_name = ''berg_human_batch_1.json'',
           content = Some \<lparr>batch_metadata = None,
             videos = Some [\<lparr>video_id = ''A'', video_index = None, other_fields = []\<rparr>,
                            \<lparr>video_id = ''B'', video_index = None, other_fields = []\<rparr>]\<rparr>\<rparr>,
         \<lparr>file_name = ''berg_human_batch_2.json'',
           content = Some \<lparr>batch_metadata = None,
             videos = Some [\<lparr>video_id = ''C'', video_index = None, other_fields = []\<rparr>]\<rparr>\<rparr>]"
  have ne: "merge_batch_files ?F ''now'' \<noteq> None"
    by (simp add: merge_batch_files_def Let_def)
  then have h: "merge_batch_files ?F ''now'' = Some (the (merge_batch_files ?F ''now''))"
    by simp
  from merge_batch_files_gaps_and_resume [OF h] ne show ?thesis by blast
qed

text \<open>
  C10. The index a video gets is \<open>len(all_videos) + i\<close> with \<open>all_videos\<close> already
  holding the \<open>i\<close> videos of the same batch that came before it (see
  \<open>collect_videos_append\<close>: the \<open>k\<close>-th video of a batch gets the running total plus
  \<open>2 * k\<close>), so the indices are not the running positions. With a batch of \<open>A\<close> and
  \<open>B\<close> followed by a batch of \<open>C\<close> and \<open>D\<close>, the indices are 0, 2, 2 and 4: \<open>C\<close> is
  dropped as a duplicate of \<open>B\<close>, one duplicate is reported, the indices 1 and 3 are
  reported missing, and the resume index is 5 for 4 collected videos.
\<close>

theorem merge_batch_files_index_slip:
  "map_option
     (\<lambda>m. (map video_id (merged_videos m), map video_index (merged_videos m),
           duplicates_removed (merge_metadata m), missing_indices (merge_metadata m),
           next_resume_index (merge_metadata m), total_videos (merge_metadata m)))
     (merge_batch_files
        [\<lparr>file_name = ''berg_human_batch_1.json'',
           content = Some \<lparr>batch_metadata = None,
             videos = Some [\<lparr>video_id = ''A'', video_index = None, other_fields = []\<rparr>,
                            \<lparr>video_id = ''B'', video_index = None, other_fields = []\<rparr>]\<rparr>\<rparr>,
         \<lparr>file_name = ''berg_human_batch_2.json'',
           content = Some \<lparr>batch_metadata = None,
             videos = Some [\<lparr>video_id = ''C'', video_index = None, other_fields = []\<rparr>,
                            \<lparr>video_id = ''D'', video_index = None, other_fields = []\<rparr>]\<rparr>\<rparr>]
        ''now'')
   = Some ([''A'', ''B'', ''D''], [Some 0, Some 2, Some 4], 1, [1, 3], 5, 3)"
  by (simp add: merge_batch_files_def Let_def index_or_def card_set_remdups
      missing_as_filter dedup_by_index_Cons upto_rec1)

section \<open>Backoff delays\<close>

lemma backoff_value:
  "fst (calculate_backoff_delay e s k w) =
     min (min_delay s * backoff_factor s ^ k) 30 * (8 / 10 + (12 / 10 - 8 / 10) * rand e (draws w))"
  by (simp add: calculate_backoff_delay_def uniform_def random_random_def Let_def)

lemma capped_mono:
  fixes b f :: real
  assumes "0 \<le> b" "1 \<le> f" "k \<le> l"
  shows "min (b * f ^ k) 30 \<le> min (b * f ^ l) 30"
proof -
  have "f ^ k \<le> f ^ l" using assms(2,3) by (simp add: power_increasing)
  then have "b * f ^ k \<le> b * f ^ l" using assms(1) by (simp add: mult_left_mono)
  then show ?thesis by (simp add: min_le_iff_disj)
qed

lemma jittered_le:
  fixes c j :: real
  assumes "j \<le> 12 / 10" "8 / 10 \<le> j"
  shows "min c 30 * j \<le> 30 * (12 / 10)"
proof (cases "0 \<le> min c 30")
  case True
  have "min c 30 * j \<le> min c 30 * (12 / 10)" using assms(1) True by (rule mult_left_mono)
  also have "\<dots> \<le> 30 * (12 / 10)" by (rule mult_right_mono) simp_all
  finally show ?thesis .
next
  case False
  then have "min c 30 * j \<le> 0" using assms(2) by (simp add: mult_le_0_iff)
  then show ?thesis by simp
qed

lemma default_steps:
  fixes j j' :: real
  assumes "k \<le> 2" "k < l" "j \<le> 12 / 10" "8 / 10 \<le> j'"
  shows "min (3 * (5 / 2) ^ k) 30 * j \<le> min (3 * (5 / 2) ^ l) 30 * j'"
proof -
  have step: "min (3 * (5 / 2) ^ k) 30 * (12 / 10) \<le> min (3 * (5 / 2) ^ Suc k) 30 * (8 / 10 :: real)"
  proof -
    from assms(1) consider "k = 0" | "k = 1" | "k = 2" by linarith
    then show ?thesis by cases (simp_all add: power2_eq_square power3_eq_cube)
  qed
  have pos: "(0::real) \<le> min (3 * (5 / 2) ^ n) 30" for n by simp
  have "min (3 * (5 / 2) ^ k) 30 * j \<le> min (3 * (5 / 2) ^ k) 30 * (12 / 10)"
    using pos [of k] assms(3) by (intro mult_left_mono)
  also note step
  also have "min (3 * (5 / 2) ^ Suc k) 30 * (8 / 10 :: real) \<le> min (3 * (5 / 2) ^ l) 30 * (8 / 10)"
    using capped_mono [of 3 "5 / 2" "Suc k" l] assms(2) by simp
  also have "\<dots> \<le> min (3 * (5 / 2) ^ l) 30 * j'"
    using pos [of l] assms(4) by (intro mult_left_mono)
  finally show ?thesis .
qed

text \<open>
  C9. With \<open>random.random()\<close> in \<open>[0, 1)\<close>, the delay \<open>_calculate_backoff_delay\<close>
  computes for the attempt \<open>k\<close> is \<open>min(min_delay * backoff_factor ^ k, 30) * jitter\<close>
  with the jitter in \<open>[0.8, 1.2]\<close>, and it never exceeds \<open>30 * 1.2\<close>. The capped delay
  before jitter does not decrease with the attempt number and stays at most 30 (for a
  base delay that is not negative and a factor of at least 1); and with the settings of
  the constructor (3 seconds, factor 2.5) the delay of an attempt below the cap, that is
  of attempt 0, 1 or 2, is at most the delay of every later attempt, whatever the
  jitters are. Floats are taken as reals.
\<close>

theorem calculate_backoff_delay_bounds:
  fixes e :: env and s :: extractor and k l :: nat and w w' :: world
  assumes "\<forall>n. 0 \<le> rand e n \<and> rand e n < 1"
  defines "jitter v \<equiv> 8 / 10 + (12 / 10 - 8 / 10) * rand e (draws v)"
  defines "capped n \<equiv> min (min_delay s * backoff_factor s ^ n) 30"
  shows "fst (calculate_backoff_delay e s k w) = capped k * jitter w \<and>
         8 / 10 \<le> jitter w \<and> jitter w \<le> 12 / 10 \<and>
         fst (calculate_backoff_delay e s k w) \<le> 30 * (12 / 10) \<and>
         (0 \<le> min_delay s \<and> 1 \<le> backoff_factor s \<and> k \<le> l \<longrightarrow>
            capped k \<le> capped l \<and> capped l \<le> 30) \<and>
         (min_delay s = 3 \<and> backoff_factor s = 5 / 2 \<and> k \<le> 2 \<and> k < l \<longrightarrow>
            fst (calculate_backoff_delay e s k w) \<le> fst (calculate_backoff_delay e s l w'))"
proof -
  have j: "8 / 10 \<le> jitter v \<and> jitter v \<le> 12 / 10" for v
  proof -
    have "0 \<le> rand e (draws v)" "rand e (draws v) \<le> 1"
      using assms(1) by (simp_all add: less_imp_le)
    then show ?thesis unfolding jitter_def by simp
  qed
  have v: "fst (calculate_backoff_delay e s n v) = capped n * jitter v" for n v
    unfolding capped_def jitter_def by (rule backoff_value)
  have b: "fst (calculate_backoff_delay e s k w) \<le> 30 * (12 / 10)"
    unfolding v capped_def using j [of w] by (intro jittered_le) simp_all
  have m: "capped k \<le> capped l \<and> capped l \<le> 30"
    if "0 \<le> min_delay s" "1 \<le> backoff_factor s" "k \<le> l"
    unfolding capped_def using capped_mono [OF that] by simp
  have d: "fst (calculate_backoff_delay e s k w) \<le> fst (calculate_backoff_delay e s l w')"
    if "min_delay s = 3" "backoff_factor s = 5 / 2" "k \<le> 2" "k < l"
    unfolding v capped_def that(1,2)
    using default_steps [OF that(3,4)] j [of w] j [of w'] by simp
  from v [of k w] j [of w] b m d show ?thesis by blast
qed


text \<open>
  The constructor's settings, every random number one half (so the jitter is 1),
  attempts 1 and 3: the delays are 7.5 and 30 seconds.
\<close>

theorem calculate_backoff_delay_bounds_witness:
  "(\<forall>n. 0 \<le> rand (scripted_env []) n \<and> rand (scripted_env []) n < 1) \<and>
   min_delay (new_extractor True Fetch False []) = 3 \<and>
   backoff_factor (new_extractor True Fetch False []) = 5 / 2 \<and>
   fst (calculate_backoff_delay (scripted_env []) (new_extractor True Fetch False []) 1
          initial_world)
     \<le> fst (calculate_backoff_delay (scripted_env []) (new_extractor True Fetch False []) 3
          initial_world) \<and>
   fst (calculate_backoff_delay (scripted_env []) (new_extractor True Fetch False []) 1
          initial_world) \<le> 30 * (12 / 10)"
proof -
  let ?e = "scripted_env []"
  let ?s = "new_extractor True Fetch False []"
  have r: "\<forall>n. 0 \<le> rand ?e n \<and> rand ?e n < 1" by (simp add: scripted_env_def)
  have c: "min_delay ?s = 3" "backoff_factor ?s = 5 / 2"
    by (simp_all add: new_extractor_def)
  have n: "(1::nat) \<le> 2" "(1::nat) < 3" by simp_all
  from calculate_backoff_delay_bounds [OF r, of ?s 1 initial_world 3 initial_world] r c n
  show ?thesis by blast
qed

section \<open>Invalid identifiers\<close>

text \<open>
  C7, as the claim states it, fails for an extractor built while the transcript library
  is missing: \<open>get_transcript\<close> returns \<open>None\<close> for the malformed identifier, not a
  failure outcome.
\<close>

theorem get_transcript_invalid_id_counterexample:
  "\<not> validate_video_id ''bad id'' \<and>
   fst (get_transcript (scripted_env []) (new_extractor False Fetch False []) initial_world
          ''bad id'') = None"
  by (simp add: validate_video_id_def get_transcript_def new_extractor_def)

text \<open>
  C7, amended. For a \<open>video_id\<close> that does not match the pattern, \<open>get_transcript\<close> of
  an extractor whose transcript library is loaded returns the failure outcome with
  \<open>transcript_available = False\<close> and the error \<open>Invalid video ID format\<close>; without the
  library it returns \<open>None\<close>. In both cases the extractor and the world are as before
  the call: no remote call, no sleep and no retry has been made.
\<close>

theorem get_transcript_invalid_id:
  assumes "\<not> validate_video_id video"
  shows "get_transcript e s w video =
           (if transcript_api s
            then Some \<lparr>result_video_id = video, transcript_available = False, full_text = [],
                       word_count = 0, transcript_segments = 0,
                       error = Some ''Invalid video ID format'', error_type = None,
                       api_method_used = None, proxy_used = None,
                       attempt_number = None\<rparr>
            else None, s, w)"
  using assms by (simp add: get_transcript_def)

text \<open>
  An identifier of ten characters and a tenth one that is not allowed, for an
  extractor with the library loaded: the failure outcome, and an unchanged trace.
\<close>

theorem get_transcript_invalid_id_witness:
  "\<not> validate_video_id ''dQw4w9WgX!'' \<and>
   transcript_api (new_extractor True Fetch False []) \<and>
   map_option error (fst (get_transcript (scripted_env [Transcript [''hello'']])
      (new_extractor True Fetch False []) initial_world ''dQw4w9WgX!''))
     = Some (Some ''Invalid video ID format'') \<and>
   snd (get_transcript (scripted_env [Transcript [''hello'']])
      (new_extractor True Fetch False []) initial_world ''dQw4w9WgX!'')
     = (new_extractor True Fetch False [], initial_world)"
proof -
  have h: "\<not> validate_video_id ''dQw4w9WgX!''"
    by (simp add: validate_video_id_def)
  have l: "transcript_api (new_extractor True Fetch False [])"
    by (simp add: new_extractor_def)
  from get_transcript_invalid_id [OF h, of "scripted_env [Transcript [''hello'']]"
      "new_extractor True Fetch False []" initial_world] h l
  show ?thesis by simp
qed

section \<open>The blocked flag\<close>

text \<open>
  Nothing in \<open>_rate_limited_request\<close> sets \<open>ip_blocked\<close> back to false: once set, it
  is still set when the method is left, however it is left.
\<close>

lemma scan_proxies_ip_blocked:
  "ip_blocked (snd (scan_proxies n s)) = ip_blocked s"
  by (induction n arbitrary: s) (simp_all add: next_in_cycle_def Let_def)

lemma get_next_proxy_ip_blocked:
  "ip_blocked (snd (get_next_proxy s)) = ip_blocked s"
proof -
  have "ip_blocked (snd (scan_proxies (length (proxy_list s)) s)) = ip_blocked s"
    by (rule scan_proxies_ip_blocked)
  then show ?thesis
    by (auto simp: get_next_proxy_def next_in_cycle_def split: prod.splits option.splits)
qed

lemma setup_proxy_session_ip_blocked:
  "ip_blocked (fst (snd (setup_proxy_session e p s w))) = ip_blocked s"
  by (simp add: setup_proxy_session_def Let_def)

lemma rotate_for_attempt_ip_blocked:
  "ip_blocked (fst (rotate_for_attempt e a s w)) = ip_blocked s"
proof -
  obtain p s' where g: "get_next_proxy s = (p, s')" by (cases "get_next_proxy s")
  then have s': "ip_blocked s' = ip_blocked s"
    using get_next_proxy_ip_blocked [of s] by simp
  obtain b s'' w' where u: "setup_proxy_session e p s' w = (b, s'', w')"
    by (cases "setup_proxy_session e p s' w")
  then have "ip_blocked s'' = ip_blocked s'"
    using setup_proxy_session_ip_blocked [of e p s' w] by simp
  with s' g u show ?thesis by (simp add: rotate_for_attempt_def)
qed

lemma attempt_loop_ip_blocked:
  "ip_blocked s \<Longrightarrow> ip_blocked (fst (snd (attempt_loop e video attempts s w)))"
proof (induction attempts arbitrary: s w)
  case Nil
  then show ?case by simp
next
  case (Cons a rest)
  obtain s1 w1 where r: "rotate_for_attempt e a s w = (s1, w1)"
    by (cases "rotate_for_attempt e a s w")
  then have b: "ip_blocked s1"
    using rotate_for_attempt_ip_blocked [of e a s w] Cons.prems by simp
  obtain res w3 where f: "fetch_transcript_adaptive e s1 video (wait_for_rate_limit e s1 w1) = (res, w3)"
    by (cases "fetch_transcript_adaptive e s1 video (wait_for_rate_limit e s1 w1)")
  show ?case
  proof (cases res)
    case (Transcript segs)
    then show ?thesis using r f b by simp
  next
    case (Raises msg)
    have 1: "ip_blocked (fst (snd (attempt_loop e video rest (s1\<lparr>ip_blocked := True\<rparr>) w')))" for w'
      by (rule Cons.IH) simp
    have 2: "ip_blocked (fst (snd (attempt_loop e video rest s1 w')))" for w'
      by (rule Cons.IH) (rule b)
    have 3: "ip_blocked (fst (snd (attempt_loop e video rest
               (s1\<lparr>failed_proxies := F, current_proxy := None\<rparr>) w')))" for w' F
      by (rule Cons.IH) (simp add: b)
    show ?thesis
      using r f Raises b 1 2 3 by (simp add: Let_def split: prod.splits)
  qed
qed


lemma upt_0_5: "[0..<5] = [0, 1, 2, 3, 4]"
  by code_simp

text \<open>
  C8. The remote call is refused with \<open>IP blocked\<close> on the first attempt and returns
  the transcript on the second. \<open>_rate_limited_request\<close> returns the transcript and has
  counted one request, but \<open>ip_blocked\<close> is still set, and the base delay of every later
  \<open>_wait_for_rate_limit\<close> is \<open>max_delay * 2 = 30\<close> seconds at any time, whatever the
  request frequency is.
\<close>

theorem rate_limited_request_keeps_ip_blocked:
  "(case rate_limited_request
          (scripted_env [Raises ''IP blocked'', Transcript [''hello'', ''world'']])
          ''dQw4w9WgXcQ'' (new_extractor True Fetch False []) initial_world of
     (r, s', w') \<Rightarrow>
        r = Inr [''hello'', ''world''] \<and> ip_blocked s' \<and> request_count s' = 1 \<and>
        (\<forall>t. pacing_base_delay s' t = 30) \<and>
        trace w' = [Slept (67 / 20), Fetched ''dQw4w9WgXcQ'', Slept 300,
                    Fetched ''dQw4w9WgXcQ''])"
  by (simp add: rate_limited_request_def new_extractor_def upt_0_5 scripted_env_def
      initial_world_def rotate_for_attempt_def
      wait_for_rate_limit_def pacing_base_delay_def uniform_def random_random_def sleep_def
      fetch_transcript_adaptive_def call_remote_def Let_def truthy_def lower_def lower_char_def
      any_phrase_def calculate_backoff_delay_def)

section \<open>Batches: every item is attempted, then the file is written\<close>

























section \<open>A batch without a success\<close>





end
